theory Spec2Isabelle
  imports Main "HOL-Library.Word" "HOL-Library.Signed_Division"
begin

section \<open>The polling client of the Video-Translation-Simulator\<close>

text \<open>
  A shallow embedding of \<^verbatim>\<open>pkg/client/client.go\<close>: the \<^verbatim>\<open>Client\<close> struct, its
  constructor \<^verbatim>\<open>NewClient\<close>, the backoff function \<^verbatim>\<open>nextDelay\<close>, the outbound
  fetch \<^verbatim>\<open>RetrieveStatus\<close> and the handler \<^verbatim>\<open>HandleStatusRequest\<close>.

  Go's \<^verbatim>\<open>int\<close> and \<^verbatim>\<open>int64\<close> (and so \<^verbatim>\<open>time.Duration\<close>, a count of
  nanoseconds) are 64-bit words read as two's complement: \<open>+\<close> and \<open>*\<close> wrap around,
  comparisons are the signed ones (\<open>\<le>s\<close>, \<open><s\<close>) and \<open>sint\<close> reads the value.
  A \<^verbatim>\<open>time.Time\<close> is an instant on the process's clock, in nanoseconds, as an
  unbounded integer; the zero value \<^verbatim>\<open>time.Time{}\<close> is the instant 0.
\<close>

subsection \<open>Data\<close>

type_synonym int64 = "64 word"
type_synonym duration = "64 word"
type_synonym instant = int

definition zeroTime :: instant where
  "zeroTime = 0"

definition Millisecond :: duration where
  "Millisecond = 1000000"

definition Second :: duration where
  "Second = 1000000000"

text \<open>A \<^verbatim>\<open>*log.Logger\<close> as \<^verbatim>\<open>log.New\<close> builds it: its prefix and its flags. Logging
  changes nothing the handler decides on, so log lines are not modelled.\<close>

datatype logger = LogNew string int

text \<open>The struct \<^verbatim>\<open>Client\<close>, field by field. The fields \<^verbatim>\<open>httpClient\<close> (an
  \<^verbatim>\<open>http.Client\<close> with no settings) and \<^verbatim>\<open>mu\<close> (the mutex) hold no data.\<close>

record Client =
  BaseURL :: string
  Logger :: logger
  status :: string
  attempt :: int64
  delay :: duration
  maxDelay :: duration
  maxRetries :: int64
  lastRequest :: instant
  nextRequest :: instant
  initialDelay :: duration
  pending :: bool
  timeout :: duration

definition NewClient :: "string \<Rightarrow> logger \<Rightarrow> Client" where
  "NewClient baseURL lg =
     \<lparr> BaseURL = baseURL,
       Logger = lg,
       status = '''',
       attempt = 0,
       delay = 0,
       maxDelay = 10 * Second,
       maxRetries = 20,
       lastRequest = zeroTime,
       nextRequest = zeroTime,
       initialDelay = 500 * Millisecond,
       pending = False,
       timeout = 5 * Second \<rparr>"

text \<open>The client that \<^verbatim>\<open>cmd/client/main.go\<close> starts: the simulated server's address and
  a logger with prefix \<^verbatim>\<open>INFO: \<close> and \<^verbatim>\<open>log.LstdFlags\<close> (3).\<close>

definition mainClient :: Client where
  "mainClient = NewClient ''http://localhost:8080'' (LogNew ''INFO: '' 3)"

subsection \<open>What is written to the caller\<close>

text \<open>\<^verbatim>\<open>respondWithStatus\<close> writes status 200 and the JSON object with the one field
  \<^verbatim>\<open>result\<close>; \<^verbatim>\<open>respondWithError\<close> is \<^verbatim>\<open>http.Error\<close> with status 500 and the
  message as plain text. The \<^verbatim>\<open>http.ResponseWriter\<close> is the list of responses written
  to it, in order.\<close>

datatype response = StatusOK string | InternalServerError string

definition respondWithStatus :: "response list \<Rightarrow> string \<Rightarrow> response list" where
  "respondWithStatus w s = w @ [StatusOK s]"

definition respondWithError :: "response list \<Rightarrow> string \<Rightarrow> response list" where
  "respondWithError w message = w @ [InternalServerError message]"

subsection \<open>The outbound fetch\<close>

text \<open>What the outbound \<^verbatim>\<open>GET /status\<close> meets is an input of the model:
  \<^verbatim>\<open>http.NewRequest\<close> fails, \<^verbatim>\<open>httpClient.Do\<close> fails (a network error, or the
  context's timeout or cancellation), or a response arrives with a status code and a
  body that the JSON decoder rejects or decodes to the field \<^verbatim>\<open>result\<close>.\<close>

datatype body = Undecodable | Decoded string

datatype upstream = NewRequestFails | DoFails | Responds int body

datatype fetchError = ErrNewRequest | ErrDo | ErrNon200 | ErrDecode

text \<open>\<^verbatim>\<open>RetrieveStatus\<close> returns Go's pair \<^verbatim>\<open>(string, error)\<close>; \<open>None\<close> is
  \<^verbatim>\<open>nil\<close>.\<close>

definition RetrieveStatus :: "upstream \<Rightarrow> string \<times> fetchError option" where
  "RetrieveStatus u =
     (case u of
        NewRequestFails \<Rightarrow> ('''', Some ErrNewRequest)
      | DoFails \<Rightarrow> ('''', Some ErrDo)
      | Responds code b \<Rightarrow>
          if code \<noteq> 200 then ('''', Some ErrNon200)
          else (case b of
                  Undecodable \<Rightarrow> ('''', Some ErrDecode)
                | Decoded r \<Rightarrow> (r, None)))"

subsection \<open>Backoff with jitter\<close>

text \<open>\<^verbatim>\<open>rand.Int63n(n)\<close> panics when \<open>n \<le> 0\<close> and otherwise returns a number in
  \<open>[0, n)\<close>. The draw of the random source is an input \<open>r\<close> of the model; every number
  in \<open>[0, n)\<close> is the result for some draw.\<close>

datatype goPanic = InvalidArgumentToInt63n

definition Int63n :: "int \<Rightarrow> int64 \<Rightarrow> goPanic + int64" where
  "Int63n r n =
     (if sint n \<le> 0 then Inl InvalidArgumentToInt63n
      else Inr (word_of_int (r mod sint n)))"

text \<open>Go's \<^verbatim>\<open>/\<close> on signed integers truncates towards zero.\<close>

definition quo :: "int64 \<Rightarrow> int64 \<Rightarrow> int64" where
  "quo a b = word_of_int (sint a sdiv sint b)"

text \<open>The first two statements of \<^verbatim>\<open>nextDelay\<close> (lines 153 to 160): the doubled (or
  initial) delay, capped at \<^verbatim>\<open>maxDelay\<close>. The rest of it (lines 162 to 165) adds the jitter
  to the half.\<close>

definition cappedDelay :: "Client \<Rightarrow> duration \<Rightarrow> duration" where
  "cappedDelay c currentDelay =
     (let currentDelay = (if currentDelay = 0 then initialDelay c else currentDelay * 2)
      in if maxDelay c <s currentDelay then maxDelay c else currentDelay)"

definition nextDelay :: "Client \<Rightarrow> int \<Rightarrow> duration \<Rightarrow> goPanic + duration" where
  "nextDelay c r currentDelay =
     (let currentDelay = cappedDelay c currentDelay
      in case Int63n r (quo currentDelay 2) of
           Inl p \<Rightarrow> Inl p
         | Inr jitter \<Rightarrow> Inr (quo currentDelay 2 + jitter))"

subsection \<open>The handler\<close>

text \<open>One call of \<^verbatim>\<open>HandleStatusRequest\<close> reads the clock up to four times, makes at most
  one outbound fetch and draws at most one random number. These are the inputs of the
  call.\<close>

record poll =
  nowStart :: instant
  nowCheck :: instant
  upstream :: upstream
  draw :: int
  nowNext :: instant
  nowLast :: instant

text \<open>What one call leaves behind: the client's fields, the responses written, the number
  of outbound fetches made, and the panic if the call ended in one (the deferred unlock
  runs, \<^verbatim>\<open>net/http\<close> recovers the panic, and the fields keep what was assigned before
  it).\<close>

record handled =
  client :: Client
  written :: "response list"
  fetches :: nat
  panicked :: "goPanic option"

text \<open>The first block of the handler (lines 93 to 101): a new polling sequence when none
  is pending.\<close>

definition startSequence :: "Client \<Rightarrow> poll \<Rightarrow> Client" where
  "startSequence c e =
     (if \<not> pending c then
        c\<lparr> pending := True,
           status := ''pending'',
           attempt := 0,
           delay := initialDelay c,
           lastRequest := zeroTime,
           nextRequest := nowStart e \<rparr>
      else c)"

text \<open>The last two statements of the handler (lines 137 and 138): the time of the fetch is
  recorded and the status is written.\<close>

definition finish :: "Client \<Rightarrow> poll \<Rightarrow> handled" where
  "finish c e =
     (let c = c\<lparr> lastRequest := nowLast e \<rparr>
      in \<lparr> client = c, written = respondWithStatus [] (status c), fetches = 1,
           panicked = None \<rparr>)"

text \<open>The handler, in the order of the source: the first block; the check of the clock
  against \<^verbatim>\<open>nextRequest\<close> with the early return of the cached status (lines 103 to 110);
  the increment of \<^verbatim>\<open>attempt\<close> and the fetch (lines 113 and 114); on an error, the retry
  ceiling with its early return (lines 115 to 122); on a result, its adoption, and either
  the next delay or the end of the sequence (lines 123 to 135).\<close>

definition HandleStatusRequest :: "Client \<Rightarrow> poll \<Rightarrow> handled" where
  "HandleStatusRequest c0 e =
     (let c = startSequence c0 e;
          now = nowCheck e
      in if now < nextRequest c then
           \<lparr> client = c, written = respondWithStatus [] (status c), fetches = 0,
             panicked = None \<rparr>
         else
           let c = c\<lparr> attempt := attempt c + 1 \<rparr>;
               (st, err) = RetrieveStatus (upstream e)
           in if err \<noteq> None then
                (if maxRetries c \<le>s attempt c then
                   \<lparr> client = c\<lparr> pending := False \<rparr>,
                     written = respondWithError [] ''Max retries reached'',
                     fetches = 1, panicked = None \<rparr>
                 else finish c e)
              else
                let c = c\<lparr> status := st \<rparr>
                in if st = ''pending'' then
                     (case nextDelay c (draw e) (delay c) of
                        Inl p \<Rightarrow>
                          \<lparr> client = c, written = [], fetches = 1, panicked = Some p \<rparr>
                      | Inr d \<Rightarrow>
                          finish (c\<lparr> delay := d, nextRequest := nowNext e + sint d \<rparr>) e)
                   else finish (c\<lparr> pending := False \<rparr>) e)"

subsection \<open>Successive calls\<close>

text \<open>The handler holds the mutex from its first statement to its return, so the calls on
  one client run one after the other; a run is the list of their inputs, and each call
  starts from the fields the call before it left.\<close>

fun polls :: "Client \<Rightarrow> poll list \<Rightarrow> handled list" where
  "polls c [] = []"
| "polls c (e # es) = HandleStatusRequest c e # polls (client (HandleStatusRequest c e)) es"

fun run :: "Client \<Rightarrow> poll list \<Rightarrow> Client" where
  "run c [] = c"
| "run c (e # es) = run (client (HandleStatusRequest c e)) es"

subsection \<open>Notions of the specification\<close>

text \<open>The specification's base of the backoff, in its own words: \<^verbatim>\<open>initialDelay\<close> when
  the current delay is 0, and otherwise the smaller of twice the current delay and
  \<^verbatim>\<open>maxDelay\<close>. It is a number of nanoseconds, not a machine word.\<close>

definition backoffBase :: "Client \<Rightarrow> duration \<Rightarrow> int" where
  "backoffBase c current =
     (if current = 0 then sint (initialDelay c)
      else min (sint current * 2) (sint (maxDelay c)))"

text \<open>The specification's transport failure: the request cannot be built or sent (a
  network error or the timeout), the response is not a 200, or its body cannot be
  decoded.\<close>

fun transportFailure :: "upstream \<Rightarrow> bool" where
  "transportFailure NewRequestFails = True"
| "transportFailure DoFails = True"
| "transportFailure (Responds code Undecodable) = True"
| "transportFailure (Responds code (Decoded r)) = (code \<noteq> 200)"

text \<open>A call reaches the outbound fetch when the clock read at the check is not before
  \<^verbatim>\<open>nextRequest\<close>, as the first block of the handler left it.\<close>

definition fetchDue :: "Client \<Rightarrow> poll \<Rightarrow> bool" where
  "fetchDue c e = (\<not> nowCheck e < nextRequest (startSequence c e))"

text \<open>A run in which every call reaches the fetch and the upstream answers
  \<^verbatim>\<open>pending\<close>.\<close>

fun pendingRun :: "Client \<Rightarrow> poll list \<Rightarrow> bool" where
  "pendingRun c [] = True"
| "pendingRun c (e # es) =
     (fetchDue c e \<and> upstream e = Responds 200 (Decoded ''pending'') \<and>
      pendingRun (client (HandleStatusRequest c e)) es)"

text \<open>The values of \<^verbatim>\<open>delay\<close> after each call of a run, in nanoseconds.\<close>

definition delays :: "Client \<Rightarrow> poll list \<Rightarrow> int list" where
  "delays c es = map (\<lambda>h. sint (delay (client h))) (polls c es)"


text \<open>The default backoff settings, with a delay between \<^verbatim>\<open>initialDelay\<close> and
  \<^verbatim>\<open>maxDelay\<close> while a sequence is pending.\<close>

definition defaultBackoff :: "Client \<Rightarrow> bool" where
  "defaultBackoff c =
     (initialDelay c = 500 * Millisecond \<and> maxDelay c = 10 * Second \<and>
      (pending c \<longrightarrow> 500000000 \<le> sint (delay c) \<and> sint (delay c) < 10000000000))"

subsection \<open>Concrete inputs\<close>

text \<open>A call at clock reading \<open>t\<close> (all four readings equal) that meets an upstream
  answering \<^verbatim>\<open>pending\<close>, with draw \<open>r\<close> of the random source; and one that meets an
  upstream that cannot be reached.\<close>

definition pendingPoll :: "instant \<Rightarrow> int \<Rightarrow> poll" where
  "pendingPoll t r =
     \<lparr> nowStart = t, nowCheck = t, upstream = Responds 200 (Decoded ''pending''),
       draw = r, nowNext = t, nowLast = t \<rparr>"

definition failingPoll :: "instant \<Rightarrow> poll" where
  "failingPoll t =
     \<lparr> nowStart = t, nowCheck = t, upstream = DoFails, draw = 0, nowNext = t, nowLast = t \<rparr>"

definition resultPoll :: "instant \<Rightarrow> string \<Rightarrow> poll" where
  "resultPoll t r =
     \<lparr> nowStart = t, nowCheck = t, upstream = Responds 200 (Decoded r),
       draw = 0, nowNext = t, nowLast = t \<rparr>"

text \<open>Calls every ten seconds, the upstream always pending: with the draw 0 (the
  smallest jitter) throughout; and with the draws that give the largest jitter in the
  first four calls (one less than half the capped delay of that call) and the draw 0
  after them.\<close>

definition steadyRun :: "int \<Rightarrow> poll list" where
  "steadyRun n = map (\<lambda>k. pendingPoll (k * 10000000000) 0) [1..n]"

definition jitterRun :: "int \<Rightarrow> poll list" where
  "jitterRun n =
     map (\<lambda>k. pendingPoll (k * 10000000000)
            (if k = 1 then 499999999 else if k = 2 then 999999998
             else if k = 3 then 1999999996 else if k = 4 then 3999999992 else 0))
       [1..n]"

text \<open>Calls every ten seconds, the upstream never reachable.\<close>

definition failingRun :: "int \<Rightarrow> poll list" where
  "failingRun n = map (\<lambda>k. failingPoll (k * 10000000000)) [1..n]"

section \<open>Arithmetic of 64-bit signed integers\<close>

lemma sint_int64_of_int:
  "- (2 ^ 63) \<le> k \<Longrightarrow> k < 2 ^ 63 \<Longrightarrow> sint (word_of_int k :: int64) = k"
  by (simp add: sint_sbintrunc' signed_take_bit_int_eq_self)

lemma sint_int64_range: "- (2 ^ 63) \<le> sint a \<and> sint a < 2 ^ 63" for a :: int64
  using sint_ge [of a] sint_lt [of a] by simp

lemma sint_int64_add:
  "- (2 ^ 63) \<le> sint a + sint b \<Longrightarrow> sint a + sint b < 2 ^ 63 \<Longrightarrow>
   sint (a + b) = sint a + sint b" for a b :: int64
  by (simp add: sint_word_ariths signed_take_bit_int_eq_self)

lemma sint_int64_double:
  "- (2 ^ 62) \<le> sint a \<Longrightarrow> sint a < 2 ^ 62 \<Longrightarrow> sint (a * 2) = sint a * 2" for a :: int64
  by (simp add: sint_word_ariths signed_take_bit_int_eq_self)

lemma sint_int64_succ:
  "sint a < sint b \<Longrightarrow> sint (a + 1) = sint a + 1" for a b :: int64
  using sint_int64_range [of a] sint_int64_range [of b]
  by (subst sint_int64_add) simp_all

lemma sdiv2_eq: "k sdiv 2 = (if 0 \<le> k then k div 2 else - ((- k) div 2))" for k :: int
  by (simp add: signed_divide_int_def sgn_if)

lemma sdiv2_pos_iff: "0 < k sdiv 2 \<longleftrightarrow> 2 \<le> k" for k :: int
  unfolding sdiv2_eq by (simp split: if_splits) linarith

lemma sint_quo2: "sint (quo a 2) = sint a sdiv 2"
proof -
  have "- (2 ^ 63) \<le> sint a sdiv 2" "sint a sdiv 2 < 2 ^ 63"
    using sint_int64_range [of a] unfolding sdiv2_eq
    by (simp_all split: if_splits) linarith+
  then show ?thesis
    by (simp add: quo_def sint_int64_of_int)
qed

section \<open>The backoff function\<close>

lemma Int63n_pos:
  assumes "0 < sint n"
  shows "\<exists>j. Int63n r n = Inr j \<and> sint j = r mod sint n"
proof -
  have "0 \<le> r mod sint n" "r mod sint n < sint n"
    using assms by simp_all
  then have "sint (word_of_int (r mod sint n) :: int64) = r mod sint n"
    using sint_int64_range [of n] by (intro sint_int64_of_int) linarith+
  then show ?thesis
    using assms by (simp add: Int63n_def)
qed

text \<open>When the capped delay is at least 2 ns, \<^verbatim>\<open>nextDelay\<close> returns its half plus a
  jitter below the half; no addition overflows.\<close>

lemma nextDelay_Inr:
  assumes "2 \<le> sint (cappedDelay c current)"
  shows "\<exists>d. nextDelay c r current = Inr d \<and>
           sint d = sint (cappedDelay c current) div 2
                    + r mod (sint (cappedDelay c current) div 2)"
proof -
  let ?b = "sint (cappedDelay c current)"
  have half: "sint (quo (cappedDelay c current) 2) = ?b div 2"
    using assms by (simp add: sint_quo2 sdiv2_eq)
  have pos: "0 < ?b div 2"
    using assms by simp
  then obtain j where j: "Int63n r (quo (cappedDelay c current) 2) = Inr j"
      "sint j = r mod (?b div 2)"
    using Int63n_pos [of "quo (cappedDelay c current) 2" r] half by auto
  have "0 \<le> r mod (?b div 2)" "r mod (?b div 2) < ?b div 2"
    using pos by simp_all
  then have "sint (quo (cappedDelay c current) 2 + j) = ?b div 2 + r mod (?b div 2)"
    using half j(2) assms sint_int64_range [of "cappedDelay c current"]
    by (subst sint_int64_add) linarith+
  then show ?thesis
    using j(1) by (simp add: nextDelay_def Let_def)
qed

lemma nextDelay_Inl:
  assumes "sint (cappedDelay c current) < 2"
  shows "nextDelay c r current = Inl InvalidArgumentToInt63n"
proof -
  have "\<not> 0 < sint (cappedDelay c current) sdiv 2"
    using assms by (simp add: sdiv2_pos_iff)
  then show ?thesis
    by (simp add: nextDelay_def Let_def Int63n_def sint_quo2)
qed

text \<open>The capped delay as a number, where doubling does not overflow.\<close>

lemma sint_cappedDelay:
  assumes "0 \<le> sint current" "sint current < 2 ^ 62"
  shows "sint (cappedDelay c current) =
           (if current = 0 then min (sint (initialDelay c)) (sint (maxDelay c))
            else min (sint current * 2) (sint (maxDelay c)))"
  using assms
  by (simp add: cappedDelay_def Let_def word_sless_alt sint_int64_double min_def)

section \<open>The paths of the handler\<close>

lemma RetrieveStatus_fails_iff: "snd (RetrieveStatus u) \<noteq> None \<longleftrightarrow> transportFailure u"
  by (cases u rule: transportFailure.cases) (simp_all add: RetrieveStatus_def)

lemma RetrieveStatus_Decoded: "RetrieveStatus (Responds 200 (Decoded r)) = (r, None)"
  by (simp add: RetrieveStatus_def)

lemma startSequence_config [simp]:
  "maxRetries (startSequence c e) = maxRetries c"
  "maxDelay (startSequence c e) = maxDelay c"
  "initialDelay (startSequence c e) = initialDelay c"
  "timeout (startSequence c e) = timeout c"
  "pending (startSequence c e)"
  by (simp_all add: startSequence_def)

lemma startSequence_pending: "pending c \<Longrightarrow> startSequence c e = c"
  by (simp add: startSequence_def)

lemma cappedDelay_same_config:
  "initialDelay c' = initialDelay c \<Longrightarrow> maxDelay c' = maxDelay c \<Longrightarrow>
   cappedDelay c' = cappedDelay c"
  by (simp add: cappedDelay_def fun_eq_iff Let_def)

lemma nextDelay_same_config:
  assumes "initialDelay c' = initialDelay c" "maxDelay c' = maxDelay c"
  shows "nextDelay c' = nextDelay c"
  unfolding nextDelay_def cappedDelay_same_config [OF assms] ..

lemma handle_cached:
  assumes "\<not> fetchDue c e"
  shows "HandleStatusRequest c e =
           \<lparr> client = startSequence c e,
             written = [StatusOK (status (startSequence c e))],
             fetches = 0, panicked = None \<rparr>"
  using assms by (simp add: HandleStatusRequest_def fetchDue_def Let_def respondWithStatus_def)

lemma handle_failed_ceiling:
  assumes "fetchDue c e" "transportFailure (upstream e)"
    and "maxRetries c \<le>s attempt (startSequence c e) + 1"
  shows "HandleStatusRequest c e =
           \<lparr> client = (startSequence c e)
                \<lparr> attempt := attempt (startSequence c e) + 1, pending := False \<rparr>,
             written = [InternalServerError ''Max retries reached''],
             fetches = 1, panicked = None \<rparr>"
proof -
  obtain st err where r: "RetrieveStatus (upstream e) = (st, Some err)"
    using assms(2) RetrieveStatus_fails_iff [of "upstream e"]
    by (cases "RetrieveStatus (upstream e)") auto
  show ?thesis
    using assms(1,3) r
    by (simp add: HandleStatusRequest_def fetchDue_def Let_def respondWithError_def)
qed

lemma handle_failed_retry:
  assumes "fetchDue c e" "transportFailure (upstream e)"
    and "\<not> maxRetries c \<le>s attempt (startSequence c e) + 1"
  shows "HandleStatusRequest c e =
           \<lparr> client = (startSequence c e)
                \<lparr> attempt := attempt (startSequence c e) + 1, lastRequest := nowLast e \<rparr>,
             written = [StatusOK (status (startSequence c e))],
             fetches = 1, panicked = None \<rparr>"
proof -
  obtain st err where r: "RetrieveStatus (upstream e) = (st, Some err)"
    using assms(2) RetrieveStatus_fails_iff [of "upstream e"]
    by (cases "RetrieveStatus (upstream e)") auto
  show ?thesis
    using assms(1,3) r
    by (simp add: HandleStatusRequest_def fetchDue_def Let_def finish_def respondWithStatus_def)
qed

lemma handle_terminal:
  assumes "fetchDue c e" "upstream e = Responds 200 (Decoded r)" "r \<noteq> ''pending''"
  shows "HandleStatusRequest c e =
           \<lparr> client = (startSequence c e)
                \<lparr> attempt := attempt (startSequence c e) + 1, status := r,
                  pending := False, lastRequest := nowLast e \<rparr>,
             written = [StatusOK r], fetches = 1, panicked = None \<rparr>"
  using assms
  by (simp add: HandleStatusRequest_def fetchDue_def Let_def finish_def respondWithStatus_def
      RetrieveStatus_Decoded)

lemma handle_pending:
  assumes "fetchDue c e" "upstream e = Responds 200 (Decoded ''pending'')"
  shows "HandleStatusRequest c e =
           (case nextDelay c (draw e) (delay (startSequence c e)) of
              Inl p \<Rightarrow>
                \<lparr> client = (startSequence c e)
                     \<lparr> attempt := attempt (startSequence c e) + 1, status := ''pending'' \<rparr>,
                  written = [], fetches = 1, panicked = Some p \<rparr>
            | Inr d \<Rightarrow>
                \<lparr> client = (startSequence c e)
                     \<lparr> attempt := attempt (startSequence c e) + 1, status := ''pending'',
                       delay := d, nextRequest := nowNext e + sint d,
                       lastRequest := nowLast e \<rparr>,
                  written = [StatusOK ''pending''], fetches = 1, panicked = None \<rparr>)"
proof -
  have "nextDelay ((startSequence c e)
          \<lparr> attempt := attempt (startSequence c e) + 1, status := ''pending'' \<rparr>) = nextDelay c"
    by (rule nextDelay_same_config) simp_all
  then show ?thesis
    using assms
    by (simp add: HandleStatusRequest_def fetchDue_def Let_def finish_def respondWithStatus_def
        RetrieveStatus_Decoded split: sum.splits)
qed

lemma startSequence_new:
  "\<not> pending c \<Longrightarrow>
   startSequence c e =
     c\<lparr> pending := True, status := ''pending'', attempt := 0, delay := initialDelay c,
        lastRequest := zeroTime, nextRequest := nowStart e \<rparr>"
  by (simp add: startSequence_def)

lemma startSequence_idem: "startSequence (startSequence c e) e = startSequence c e"
  by (simp add: startSequence_def)

lemma handle_startSequence:
  "HandleStatusRequest (startSequence c e) e = HandleStatusRequest c e"
  by (simp add: HandleStatusRequest_def startSequence_idem)

lemma upstream_cases:
  "transportFailure u \<or> (\<exists>r. u = Responds 200 (Decoded r))"
  by (cases u rule: transportFailure.cases) simp_all

section \<open>The default configuration\<close>

lemma nextDelay_default:
  assumes "initialDelay c = 500 * Millisecond" "maxDelay c = 10 * Second"
    and "500000000 \<le> sint current" "sint current < 10000000000"
  shows "\<exists>d. nextDelay c r current = Inr d \<and>
           min (sint current) 5000000000 \<le> sint d \<and> sint d < 10000000000"
proof -
  let ?b = "sint (cappedDelay c current)"
  have nz: "current \<noteq> 0"
    using assms(3) by auto
  have b: "?b = min (sint current * 2) 10000000000"
    using sint_cappedDelay [of current c] assms nz by (simp add: Second_def)
  then have two: "2 \<le> ?b"
    using assms(3) by simp
  obtain d where d: "nextDelay c r current = Inr d" "sint d = ?b div 2 + r mod (?b div 2)"
    using nextDelay_Inr [OF two, of r] by auto
  have "0 \<le> r mod (?b div 2)" "r mod (?b div 2) < ?b div 2"
    using two by simp_all
  moreover have "?b div 2 = min (sint current) 5000000000"
    unfolding b by (simp add: min_def)
  ultimately have "min (sint current) 5000000000 \<le> sint d" "sint d < 10000000000"
    using d(2) by linarith+
  then show ?thesis
    using d(1) by auto
qed

lemma startSequence_default:
  "defaultBackoff c \<Longrightarrow> defaultBackoff (startSequence c e)"
  by (simp add: defaultBackoff_def startSequence_def Millisecond_def)

lemma handle_default:
  assumes "defaultBackoff c"
  shows "defaultBackoff (client (HandleStatusRequest c e)) \<and>
         panicked (HandleStatusRequest c e) = None"
proof (cases "fetchDue c e")
  case False
  then show ?thesis
    using handle_cached [OF False] startSequence_default [OF assms] by simp
next
  case True
  let ?c1 = "startSequence c e"
  have c1: "defaultBackoff ?c1"
    by (rule startSequence_default [OF assms])
  consider (fail) "transportFailure (upstream e)"
    | (ok) r where "upstream e = Responds 200 (Decoded r)"
    using upstream_cases [of "upstream e"] by blast
  then show ?thesis
  proof cases
    case fail
    show ?thesis
    proof (cases "maxRetries c \<le>s attempt ?c1 + 1")
      case True
      then show ?thesis
        using handle_failed_ceiling [OF \<open>fetchDue c e\<close> fail] c1
        by (simp add: defaultBackoff_def)
    next
      case False
      then show ?thesis
        using handle_failed_retry [OF \<open>fetchDue c e\<close> fail] c1
        by (simp add: defaultBackoff_def)
    qed
  next
    case ok
    show ?thesis
    proof (cases "r = ''pending''")
      case False
      then show ?thesis
        using handle_terminal [OF True ok] c1 by (simp add: defaultBackoff_def)
    next
      case pend: True
      have cfg: "initialDelay c = 500 * Millisecond" "maxDelay c = 10 * Second"
        using assms by (simp_all add: defaultBackoff_def)
      have rng: "500000000 \<le> sint (delay ?c1)" "sint (delay ?c1) < 10000000000"
        using c1 by (simp_all add: defaultBackoff_def)
      obtain d where d: "nextDelay c (draw e) (delay ?c1) = Inr d"
          "min (sint (delay ?c1)) 5000000000 \<le> sint d" "sint d < 10000000000"
        using nextDelay_default [OF cfg rng] by blast
      then show ?thesis
        using handle_pending [OF True] ok pend rng c1
        by (simp add: defaultBackoff_def)
    qed
  qed
qed

lemma handle_pending_default:
  assumes "defaultBackoff c" "fetchDue c e" "upstream e = Responds 200 (Decoded ''pending'')"
  shows "pending (client (HandleStatusRequest c e)) \<and>
         min (if pending c then sint (delay c) else 500000000) 5000000000
           \<le> sint (delay (client (HandleStatusRequest c e))) \<and>
         sint (delay (client (HandleStatusRequest c e))) < 10000000000"
proof -
  let ?c1 = "startSequence c e"
  have c1: "defaultBackoff ?c1"
    by (rule startSequence_default [OF assms(1)])
  have cfg: "initialDelay c = 500 * Millisecond" "maxDelay c = 10 * Second"
    using assms(1) by (simp_all add: defaultBackoff_def)
  have rng: "500000000 \<le> sint (delay ?c1)" "sint (delay ?c1) < 10000000000"
    using c1 by (simp_all add: defaultBackoff_def)
  have d0: "sint (delay ?c1) = (if pending c then sint (delay c) else 500000000)"
    using cfg by (simp add: startSequence_def Millisecond_def)
  obtain d where d: "nextDelay c (draw e) (delay ?c1) = Inr d"
      "min (sint (delay ?c1)) 5000000000 \<le> sint d" "sint d < 10000000000"
    using nextDelay_default [OF cfg rng] by blast
  then show ?thesis
    using handle_pending [OF assms(2,3)] d0 by simp
qed

lemma polls_default:
  "defaultBackoff c \<Longrightarrow> \<forall>h \<in> set (polls c es). panicked h = None"
proof (induction es arbitrary: c)
  case Nil
  then show ?case by simp
next
  case (Cons e es)
  have "defaultBackoff (client (HandleStatusRequest c e))"
      "panicked (HandleStatusRequest c e) = None"
    using handle_default [OF Cons.prems, of e] by simp_all
  then show ?case
    using Cons.IH [of "client (HandleStatusRequest c e)"] by simp
qed

lemma delays_default:
  assumes "defaultBackoff c" "pendingRun c es"
  shows "successively (\<lambda>d d'. min d 5000000000 \<le> d' \<and> d' < 10000000000)
           ((if pending c then sint (delay c) else 500000000) # delays c es)"
  using assms
proof (induction es arbitrary: c)
  case Nil
  then show ?case by (simp add: delays_def)
next
  case (Cons e es)
  let ?c' = "client (HandleStatusRequest c e)"
  have run: "fetchDue c e" "upstream e = Responds 200 (Decoded ''pending'')" "pendingRun ?c' es"
    using Cons.prems(2) by simp_all
  have step: "pending ?c'"
      "min (if pending c then sint (delay c) else 500000000) 5000000000 \<le> sint (delay ?c')"
      "sint (delay ?c') < 10000000000"
    using handle_pending_default [OF Cons.prems(1) run(1,2)] by simp_all
  have "defaultBackoff ?c'"
    using handle_default [OF Cons.prems(1), of e] by simp
  then have "successively (\<lambda>d d'. min d 5000000000 \<le> d' \<and> d' < 10000000000)
           (sint (delay ?c') # delays ?c' es)"
    using Cons.IH [OF _ run(3)] step(1) by simp
  then show ?case
    using step(2,3) by (simp add: delays_def)
qed

section \<open>Runs\<close>

lemma handle_failing_attempt:
  assumes "1 \<le> sint (maxRetries c)" "sint (attempt c) \<le> sint (maxRetries c)"
    and "pending c \<longrightarrow> sint (attempt c) < sint (maxRetries c)"
    and "transportFailure (upstream e)"
  shows "maxRetries (client (HandleStatusRequest c e)) = maxRetries c \<and>
         sint (attempt (client (HandleStatusRequest c e))) \<le> sint (maxRetries c) \<and>
         (pending (client (HandleStatusRequest c e)) \<longrightarrow>
            sint (attempt (client (HandleStatusRequest c e))) < sint (maxRetries c))"
proof -
  let ?c1 = "startSequence c e"
  have below: "sint (attempt ?c1) < sint (maxRetries c)"
    using assms(1,3) by (simp add: startSequence_def)
  then have succ: "sint (attempt ?c1 + 1) = sint (attempt ?c1) + 1"
    by (rule sint_int64_succ)
  show ?thesis
  proof (cases "fetchDue c e")
    case False
    then show ?thesis
      using handle_cached [OF False] below by simp
  next
    case True
    show ?thesis
    proof (cases "maxRetries c \<le>s attempt ?c1 + 1")
      case ceiling: True
      then show ?thesis
        using handle_failed_ceiling [OF True assms(4) ceiling] below succ by simp
    next
      case False
      then have "sint (attempt ?c1 + 1) < sint (maxRetries c)"
        by (simp add: word_sle_eq)
      then show ?thesis
        using handle_failed_retry [OF True assms(4) False] by simp
    qed
  qed
qed

lemma run_failing_attempt:
  assumes "1 \<le> sint (maxRetries c)" "sint (attempt c) \<le> sint (maxRetries c)"
    and "pending c \<longrightarrow> sint (attempt c) < sint (maxRetries c)"
    and "\<forall>e \<in> set es. transportFailure (upstream e)"
  shows "maxRetries (run c es) = maxRetries c \<and>
         sint (attempt (run c es)) \<le> sint (maxRetries c)"
  using assms
proof (induction es arbitrary: c)
  case Nil
  then show ?case by simp
next
  case (Cons e es)
  let ?c' = "client (HandleStatusRequest c e)"
  have e: "transportFailure (upstream e)"
    using Cons.prems(4) by simp
  have step: "maxRetries ?c' = maxRetries c" "sint (attempt ?c') \<le> sint (maxRetries c)"
      "pending ?c' \<longrightarrow> sint (attempt ?c') < sint (maxRetries c)"
    using handle_failing_attempt [OF Cons.prems(1,2,3) e] by simp_all
  have "maxRetries (run ?c' es) = maxRetries ?c' \<and>
      sint (attempt (run ?c' es)) \<le> sint (maxRetries ?c')"
    using Cons.IH [of ?c'] step Cons.prems(1,4) by simp
  then show ?case
    using step(1) by simp
qed

lemma successively_tail_all:
  "successively P (x # xs) \<Longrightarrow> (\<And>a b. P a b \<Longrightarrow> Q b) \<Longrightarrow> \<forall>y \<in> set xs. Q y"
proof (induction xs arbitrary: x)
  case Nil
  then show ?case by simp
next
  case (Cons y ys)
  then show ?case by auto
qed



section \<open>The claims\<close>

text \<open>
  Claim C1, as the code has it. The attempt counter is checked against \<^verbatim>\<open>maxRetries\<close>
  only when a fetch fails, and \<^verbatim>\<open>status\<close> has no value for an exhausted sequence. When a
  call reaches the fetch, the fetch fails and the incremented attempt counter has reached
  \<^verbatim>\<open>maxRetries\<close>, the handler sets \<^verbatim>\<open>pending\<close> to false, leaves \<^verbatim>\<open>status\<close> at its last
  known value and writes exactly one response, the error (a 500 with the message
  \<^verbatim>\<open>Max retries reached\<close>). In every state reached from a new client through calls whose
  fetches all fail, the attempt counter is at most \<^verbatim>\<open>maxRetries\<close>.
\<close>

theorem retry_ceiling:
  "(fetchDue c e \<and> transportFailure (upstream e) \<and>
    maxRetries c \<le>s attempt (startSequence c e) + 1 \<longrightarrow>
      \<not> pending (client (HandleStatusRequest c e)) \<and>
      status (client (HandleStatusRequest c e)) = status (startSequence c e) \<and>
      written (HandleStatusRequest c e) = [InternalServerError ''Max retries reached''] \<and>
      fetches (HandleStatusRequest c e) = 1 \<and>
      panicked (HandleStatusRequest c e) = None) \<and>
   ((\<forall>e' \<in> set es. transportFailure (upstream e')) \<longrightarrow>
      attempt (run (NewClient baseURL lg) es) \<le>s maxRetries (run (NewClient baseURL lg) es) \<and>
      maxRetries (run (NewClient baseURL lg) es) = 20)"
proof -
  have one: "\<not> pending (client (HandleStatusRequest c e)) \<and>
      status (client (HandleStatusRequest c e)) = status (startSequence c e) \<and>
      written (HandleStatusRequest c e) = [InternalServerError ''Max retries reached''] \<and>
      fetches (HandleStatusRequest c e) = 1 \<and>
      panicked (HandleStatusRequest c e) = None"
    if "fetchDue c e" "transportFailure (upstream e)"
      "maxRetries c \<le>s attempt (startSequence c e) + 1"
    using handle_failed_ceiling [OF that] by simp
  have two: "attempt (run (NewClient baseURL lg) es) \<le>s maxRetries (run (NewClient baseURL lg) es) \<and>
      maxRetries (run (NewClient baseURL lg) es) = 20"
    if "\<forall>e' \<in> set es. transportFailure (upstream e')"
  proof -
    let ?c = "NewClient baseURL lg"
    have "maxRetries (run ?c es) = maxRetries ?c \<and>
        sint (attempt (run ?c es)) \<le> sint (maxRetries ?c)"
      by (rule run_failing_attempt [OF _ _ _ that]) (simp_all add: NewClient_def)
    then show ?thesis
      by (simp add: word_sle_eq NewClient_def)
  qed
  show ?thesis
    using one two by blast
qed

text \<open>Nineteen failed fetches and a twentieth; and the state after twenty.\<close>

theorem retry_ceiling_witness:
  "fetchDue (run mainClient (failingRun 19)) (failingPoll 200000000000) \<and>
   transportFailure (upstream (failingPoll 200000000000)) \<and>
   maxRetries (run mainClient (failingRun 19))
     \<le>s attempt (startSequence (run mainClient (failingRun 19)) (failingPoll 200000000000)) + 1 \<and>
   \<not> pending (client (HandleStatusRequest (run mainClient (failingRun 19))
        (failingPoll 200000000000))) \<and>
   written (HandleStatusRequest (run mainClient (failingRun 19)) (failingPoll 200000000000))
     = [InternalServerError ''Max retries reached''] \<and>
   list_all (\<lambda>e'. transportFailure (upstream e')) (failingRun 20) \<and>
   attempt (run (NewClient ''http://localhost:8080'' (LogNew ''INFO: '' 3)) (failingRun 20))
     \<le>s maxRetries (run (NewClient ''http://localhost:8080'' (LogNew ''INFO: '' 3)) (failingRun 20)) \<and>
   sint (attempt (run (NewClient ''http://localhost:8080'' (LogNew ''INFO: '' 3)) (failingRun 20)))
     = 20"
proof -
  let ?c = "run mainClient (failingRun 19)"
  let ?e = "failingPoll 200000000000"
  let ?n = "NewClient ''http://localhost:8080'' (LogNew ''INFO: '' 3)"
  have h1: "fetchDue ?c ?e" by code_simp
  have h2: "transportFailure (upstream ?e)" by code_simp
  have h3: "maxRetries ?c \<le>s attempt (startSequence ?c ?e) + 1" by code_simp
  have l: "list_all (\<lambda>e'. transportFailure (upstream e')) (failingRun 20)" by code_simp
  then have h4: "\<forall>e' \<in> set (failingRun 20). transportFailure (upstream e')"
    unfolding list_all_iff .
  have v: "sint (attempt (run ?n (failingRun 20))) = 20" by code_simp
  note t = retry_ceiling [of ?c ?e "failingRun 20" "''http://localhost:8080''" "LogNew ''INFO: '' 3"]
  have a: "\<not> pending (client (HandleStatusRequest ?c ?e)) \<and>
      written (HandleStatusRequest ?c ?e) = [InternalServerError ''Max retries reached'']"
    using t h1 h2 h3 by blast
  have b: "attempt (run ?n (failingRun 20)) \<le>s maxRetries (run ?n (failingRun 20))"
    using t h4 by blast
  show ?thesis
    using a b h1 h2 h3 l v by blast
qed

text \<open>Claim C1 as stated fails twice. With an upstream that answers \<^verbatim>\<open>pending\<close> to 21
  fetches the attempt counter is 21, above \<^verbatim>\<open>maxRetries\<close> = 20. After 20 failed fetches
  the error is written and the sequence ended, but \<^verbatim>\<open>status\<close> is still \<^verbatim>\<open>pending\<close>.\<close>

theorem retry_ceiling_counterexample:
  "pendingRun mainClient (steadyRun 21) \<and>
   sint (attempt (run mainClient (steadyRun 21))) = 21 \<and>
   sint (maxRetries (run mainClient (steadyRun 21))) = 20 \<and>
   \<not> attempt (run mainClient (steadyRun 21)) \<le>s maxRetries (run mainClient (steadyRun 21)) \<and>
   list_all (\<lambda>e. transportFailure (upstream e)) (failingRun 20) \<and>
   sint (attempt (run mainClient (failingRun 20))) = 20 \<and>
   written (last (polls mainClient (failingRun 20)))
     = [InternalServerError ''Max retries reached''] \<and>
   \<not> pending (run mainClient (failingRun 20)) \<and>
   status (run mainClient (failingRun 20)) = ''pending'' \<and>
   status (run mainClient (failingRun 20)) \<noteq> ''max-retries-exceeded''"
  by code_simp

text \<open>
  Claim C2. For a client whose \<^verbatim>\<open>initialDelay\<close> is at least 2 ns and at most
  \<^verbatim>\<open>maxDelay\<close>, and whose \<^verbatim>\<open>maxDelay\<close> is below \<open>2\<^sup>6\<^sup>2\<close> ns (so that no doubling
  overflows), as the client of \<^verbatim>\<open>NewClient\<close> is: for every current delay in
  \<open>[0, maxDelay]\<close> and every draw of the random source, \<^verbatim>\<open>nextDelay\<close> returns a value in
  \<open>[base/2, base)\<close>, where \<open>base\<close> is \<^verbatim>\<open>initialDelay\<close> when the current delay is 0 and
  \<open>min (current * 2) maxDelay\<close> otherwise; the value is strictly less than \<^verbatim>\<open>maxDelay\<close>.
\<close>

theorem nextDelay_in_range:
  assumes init: "2 \<le> sint (initialDelay c)" "sint (initialDelay c) \<le> sint (maxDelay c)"
    and cap: "sint (maxDelay c) < 2 ^ 62"
    and cur: "0 \<le> sint current" "sint current \<le> sint (maxDelay c)"
  shows "\<exists>d. nextDelay c r current = Inr d \<and>
           backoffBase c current div 2 \<le> sint d \<and> sint d < backoffBase c current \<and>
           sint d < sint (maxDelay c)"
proof -
  let ?b = "backoffBase c current"
  have "sint current \<noteq> 0" if "current \<noteq> 0"
    using that by (simp add: signed_eq_0_iff)
  then have nz: "current \<noteq> 0 \<Longrightarrow> 1 \<le> sint current"
    using cur(1) by fastforce
  have capped: "sint (cappedDelay c current) = ?b"
    using sint_cappedDelay [of current c] cur cap init(2)
    by (simp add: backoffBase_def)
  have two: "2 \<le> ?b"
    using init nz by (auto simp add: backoffBase_def)
  have le: "?b \<le> sint (maxDelay c)"
    using init(2) by (simp add: backoffBase_def)
  obtain d where d: "nextDelay c r current = Inr d"
      "sint d = ?b div 2 + r mod (?b div 2)"
    using nextDelay_Inr [of c current r] two capped by auto
  have "0 \<le> r mod (?b div 2)" "r mod (?b div 2) < ?b div 2"
    using two by simp_all
  then have "?b div 2 \<le> sint d" "sint d < ?b"
    using d(2) by linarith+
  then show ?thesis
    using d(1) le by auto
qed

text \<open>The client of \<^verbatim>\<open>cmd/client/main.go\<close> at a current delay of 3 s: the base is 6 s and
  the draw 123456789 gives 3.123456789 s.\<close>

theorem nextDelay_in_range_witness:
  "2 \<le> sint (initialDelay mainClient) \<and>
   sint (initialDelay mainClient) \<le> sint (maxDelay mainClient) \<and>
   sint (maxDelay mainClient) < 2 ^ 62 \<and>
   0 \<le> sint (3 * Second) \<and> sint (3 * Second) \<le> sint (maxDelay mainClient) \<and>
   backoffBase mainClient (3 * Second) = 6000000000 \<and>
   nextDelay mainClient 123456789 (3 * Second) = Inr 3123456789 \<and>
   (\<exists>d. nextDelay mainClient 123456789 (3 * Second) = Inr d \<and>
      backoffBase mainClient (3 * Second) div 2 \<le> sint d \<and>
      sint d < backoffBase mainClient (3 * Second) \<and> sint d < sint (maxDelay mainClient))"
proof -
  have h1: "2 \<le> sint (initialDelay mainClient)" by code_simp
  have h2: "sint (initialDelay mainClient) \<le> sint (maxDelay mainClient)" by code_simp
  have h3: "sint (maxDelay mainClient) < 2 ^ 62" by code_simp
  have h4: "0 \<le> sint (3 * Second)" by code_simp
  have h5: "sint (3 * Second) \<le> sint (maxDelay mainClient)" by code_simp
  have v1: "backoffBase mainClient (3 * Second) = 6000000000" by code_simp
  have v2: "nextDelay mainClient 123456789 (3 * Second) = Inr 3123456789" by code_simp
  show ?thesis
    using h1 h2 h3 h4 h5 v1 v2 nextDelay_in_range [OF h1 h2 h3 h4 h5, of 123456789]
    by blast
qed

text \<open>
  Claim C3. When a call reaches the fetch, the fetch fails (the request cannot be built or
  sent, the timeout strikes, the response is not a 200 or its body cannot be decoded) and
  the attempt counter, incremented for this fetch, is still below \<^verbatim>\<open>maxRetries\<close>, the
  handler leaves \<^verbatim>\<open>status\<close>, \<^verbatim>\<open>nextRequest\<close> and \<^verbatim>\<open>delay\<close> as the first block left them,
  keeps the sequence pending, and writes exactly one response: a 200 with that status. For a
  client whose sequence was already pending these are the values it had before the call.
\<close>

theorem failed_fetch_below_ceiling:
  assumes "fetchDue c e" and "transportFailure (upstream e)"
    and "attempt (startSequence c e) + 1 <s maxRetries c"
  shows "status (client (HandleStatusRequest c e)) = status (startSequence c e) \<and>
         nextRequest (client (HandleStatusRequest c e)) = nextRequest (startSequence c e) \<and>
         delay (client (HandleStatusRequest c e)) = delay (startSequence c e) \<and>
         pending (client (HandleStatusRequest c e)) \<and>
         attempt (client (HandleStatusRequest c e)) = attempt (startSequence c e) + 1 \<and>
         written (HandleStatusRequest c e) = [StatusOK (status (startSequence c e))] \<and>
         panicked (HandleStatusRequest c e) = None \<and>
         (pending c \<longrightarrow>
            status (client (HandleStatusRequest c e)) = status c \<and>
            nextRequest (client (HandleStatusRequest c e)) = nextRequest c \<and>
            written (HandleStatusRequest c e) = [StatusOK (status c)])"
proof -
  have "\<not> maxRetries c \<le>s attempt (startSequence c e) + 1"
    using assms(3) by (simp add: word_sle_eq word_sless_alt)
  then show ?thesis
    using handle_failed_retry [OF assms(1,2)] by (simp add: startSequence_pending)
qed

text \<open>The client of \<^verbatim>\<open>cmd/client/main.go\<close> after three failed fetches, and a fourth
  call that fails again.\<close>

theorem failed_fetch_below_ceiling_witness:
  "fetchDue (run mainClient (failingRun 3)) (failingPoll 40000000000) \<and>
   transportFailure (upstream (failingPoll 40000000000)) \<and>
   attempt (startSequence (run mainClient (failingRun 3)) (failingPoll 40000000000)) + 1
     <s maxRetries (run mainClient (failingRun 3)) \<and>
   pending (run mainClient (failingRun 3)) \<and>
   status (run mainClient (failingRun 3)) = ''pending'' \<and>
   status (client (HandleStatusRequest (run mainClient (failingRun 3)) (failingPoll 40000000000)))
     = status (run mainClient (failingRun 3)) \<and>
   nextRequest (client (HandleStatusRequest (run mainClient (failingRun 3)) (failingPoll 40000000000)))
     = nextRequest (run mainClient (failingRun 3)) \<and>
   written (HandleStatusRequest (run mainClient (failingRun 3)) (failingPoll 40000000000))
     = [StatusOK (status (run mainClient (failingRun 3)))]"
proof -
  let ?c = "run mainClient (failingRun 3)"
  let ?e = "failingPoll 40000000000"
  have h1: "fetchDue ?c ?e" by code_simp
  have h2: "transportFailure (upstream ?e)" by code_simp
  have h3: "attempt (startSequence ?c ?e) + 1 <s maxRetries ?c" by code_simp
  have h4: "pending ?c" by code_simp
  have h5: "status ?c = ''pending''" by code_simp
  show ?thesis
    using failed_fetch_below_ceiling [OF h1 h2 h3] h1 h2 h3 h4 h5 by blast
qed

text \<open>
  Claim C4. A call on a pending sequence whose clock reading is before \<^verbatim>\<open>nextRequest\<close>
  writes the cached status as a 200, makes no outbound fetch and leaves every field of the
  client as it was; any number of such calls in a row all return that same status and leave
  the same client.
\<close>

theorem cache_hit_changes_nothing:
  assumes "pending c" and "nowCheck e < nextRequest c"
    and "\<forall>e' \<in> set es. nowCheck e' < nextRequest c"
  shows "HandleStatusRequest c e =
           \<lparr> client = c, written = [StatusOK (status c)], fetches = 0, panicked = None \<rparr> \<and>
         polls c es =
           replicate (length es)
             \<lparr> client = c, written = [StatusOK (status c)], fetches = 0, panicked = None \<rparr>"
proof -
  have one: "HandleStatusRequest c x =
      \<lparr> client = c, written = [StatusOK (status c)], fetches = 0, panicked = None \<rparr>"
    if "nowCheck x < nextRequest c" for x
    using that assms(1) handle_cached [of c x]
    by (simp add: fetchDue_def startSequence_pending)
  have "polls c es = replicate (length es)
      \<lparr> client = c, written = [StatusOK (status c)], fetches = 0, panicked = None \<rparr>"
    using assms(3) by (induction es) (simp_all add: one)
  then show ?thesis
    using one [OF assms(2)] by simp
qed

text \<open>After one fetch at 10 s answered \<^verbatim>\<open>pending\<close> with the smallest jitter, the next
  fetch is due at 10.5 s; three calls before that, whatever the upstream would answer.\<close>

theorem cache_hit_changes_nothing_witness:
  "pending (run mainClient [pendingPoll 10000000000 0]) \<and>
   status (run mainClient [pendingPoll 10000000000 0]) = ''pending'' \<and>
   nextRequest (run mainClient [pendingPoll 10000000000 0]) = 10500000000 \<and>
   nowCheck (resultPoll 10000000001 ''completed'')
     < nextRequest (run mainClient [pendingPoll 10000000000 0]) \<and>
   list_all (\<lambda>e'. nowCheck e' < nextRequest (run mainClient [pendingPoll 10000000000 0]))
     [failingPoll 10000000002, pendingPoll 10499999999 7] \<and>
   HandleStatusRequest (run mainClient [pendingPoll 10000000000 0])
       (resultPoll 10000000001 ''completed'') =
     \<lparr> client = run mainClient [pendingPoll 10000000000 0],
       written = [StatusOK (status (run mainClient [pendingPoll 10000000000 0]))],
       fetches = 0, panicked = None \<rparr> \<and>
   polls (run mainClient [pendingPoll 10000000000 0])
       [failingPoll 10000000002, pendingPoll 10499999999 7] =
     replicate (length [failingPoll 10000000002, pendingPoll 10499999999 7])
       \<lparr> client = run mainClient [pendingPoll 10000000000 0],
         written = [StatusOK (status (run mainClient [pendingPoll 10000000000 0]))],
         fetches = 0, panicked = None \<rparr>"
proof -
  let ?c = "run mainClient [pendingPoll 10000000000 0]"
  let ?e = "resultPoll 10000000001 ''completed''"
  let ?es = "[failingPoll 10000000002, pendingPoll 10499999999 7]"
  have h1: "pending ?c" by code_simp
  have v: "nextRequest ?c = 10500000000" by code_simp
  have s: "status ?c = ''pending''" by code_simp
  have h2: "nowCheck ?e < nextRequest ?c" by code_simp
  have l: "list_all (\<lambda>e'. nowCheck e' < nextRequest ?c) ?es" by code_simp
  then have h3: "\<forall>e' \<in> set ?es. nowCheck e' < nextRequest ?c"
    unfolding list_all_iff .
  show ?thesis
    using cache_hit_changes_nothing [OF h1 h2 h3] h1 h2 l v s by blast
qed

text \<open>
  Claim C5. When a fetch succeeds with \<^verbatim>\<open>completed\<close> or \<^verbatim>\<open>error\<close>, the handler adopts the
  value as \<^verbatim>\<open>status\<close>, sets \<^verbatim>\<open>pending\<close> to false and returns the value with a 200. A call
  on a client with no pending sequence (so the next call after any terminal outcome) runs
  exactly as a call on the pending sequence with \<^verbatim>\<open>attempt\<close> 0, \<^verbatim>\<open>status\<close> pending,
  \<^verbatim>\<open>delay\<close> equal to \<^verbatim>\<open>initialDelay\<close> and \<^verbatim>\<open>nextRequest\<close> equal to the clock reading at
  the start; as the clock does not run backwards, that call makes the first fetch of the new
  sequence and leaves \<^verbatim>\<open>attempt\<close> at 1.
\<close>

theorem terminal_result_then_new_sequence:
  "(fetchDue c e \<and> upstream e = Responds 200 (Decoded r) \<and> (r = ''completed'' \<or> r = ''error'') \<longrightarrow>
      status (client (HandleStatusRequest c e)) = r \<and>
      \<not> pending (client (HandleStatusRequest c e)) \<and>
      written (HandleStatusRequest c e) = [StatusOK r]) \<and>
   (\<not> pending c' \<longrightarrow>
      HandleStatusRequest c' e' =
        HandleStatusRequest
          (c'\<lparr> pending := True, status := ''pending'', attempt := 0, delay := initialDelay c',
              lastRequest := zeroTime, nextRequest := nowStart e' \<rparr>) e' \<and>
      (nowStart e' \<le> nowCheck e' \<longrightarrow>
         fetches (HandleStatusRequest c' e') = 1 \<and>
         attempt (client (HandleStatusRequest c' e')) = 1))"
proof -
  have one: "status (client (HandleStatusRequest c e)) = r \<and>
      \<not> pending (client (HandleStatusRequest c e)) \<and>
      written (HandleStatusRequest c e) = [StatusOK r]"
    if "fetchDue c e" "upstream e = Responds 200 (Decoded r)" "r = ''completed'' \<or> r = ''error''"
  proof -
    have "r \<noteq> ''pending''" using that(3) by auto
    then show ?thesis using handle_terminal [OF that(1,2)] by simp
  qed
  have two: "HandleStatusRequest c' e' =
        HandleStatusRequest
          (c'\<lparr> pending := True, status := ''pending'', attempt := 0, delay := initialDelay c',
              lastRequest := zeroTime, nextRequest := nowStart e' \<rparr>) e'"
    if "\<not> pending c'"
    using handle_startSequence [of c' e'] startSequence_new [OF that, of e'] by simp
  have four: "fetches (HandleStatusRequest c' e') = 1 \<and>
         attempt (client (HandleStatusRequest c' e')) = 1"
    if "\<not> pending c'" "nowStart e' \<le> nowCheck e'"
    using that
    by (simp add: HandleStatusRequest_def startSequence_def Let_def finish_def
        split: prod.splits sum.splits)
  show ?thesis
    using one two four by blast
qed

text \<open>A first call answered \<^verbatim>\<open>completed\<close>, then a call answered \<^verbatim>\<open>pending\<close>.\<close>

theorem terminal_result_then_new_sequence_witness:
  "fetchDue mainClient (resultPoll 10000000000 ''completed'') \<and>
   upstream (resultPoll 10000000000 ''completed'') = Responds 200 (Decoded ''completed'') \<and>
   status (client (HandleStatusRequest mainClient (resultPoll 10000000000 ''completed'')))
     = ''completed'' \<and>
   \<not> pending (client (HandleStatusRequest mainClient (resultPoll 10000000000 ''completed''))) \<and>
   written (HandleStatusRequest mainClient (resultPoll 10000000000 ''completed''))
     = [StatusOK ''completed''] \<and>
   nowStart (pendingPoll 20000000000 0) \<le> nowCheck (pendingPoll 20000000000 0) \<and>
   fetches (HandleStatusRequest
      (client (HandleStatusRequest mainClient (resultPoll 10000000000 ''completed'')))
      (pendingPoll 20000000000 0)) = 1 \<and>
   attempt (client (HandleStatusRequest
      (client (HandleStatusRequest mainClient (resultPoll 10000000000 ''completed'')))
      (pendingPoll 20000000000 0))) = 1 \<and>
   status (client (HandleStatusRequest
      (client (HandleStatusRequest mainClient (resultPoll 10000000000 ''completed'')))
      (pendingPoll 20000000000 0))) = ''pending''"
proof -
  let ?e = "resultPoll 10000000000 ''completed''"
  let ?c' = "client (HandleStatusRequest mainClient ?e)"
  let ?e' = "pendingPoll 20000000000 0"
  have h1: "fetchDue mainClient ?e" by code_simp
  have h2: "upstream ?e = Responds 200 (Decoded ''completed'')" by code_simp
  have h3: "nowStart ?e' \<le> nowCheck ?e'" by code_simp
  have v: "status (client (HandleStatusRequest ?c' ?e')) = ''pending''" by code_simp
  note t = terminal_result_then_new_sequence [of mainClient ?e "''completed''" ?c' ?e']
  have a: "status ?c' = ''completed'' \<and> \<not> pending ?c' \<and>
      written (HandleStatusRequest mainClient ?e) = [StatusOK ''completed'']"
    using t h1 h2 by blast
  then have "\<not> pending ?c'" by blast
  then have b: "fetches (HandleStatusRequest ?c' ?e') = 1 \<and>
      attempt (client (HandleStatusRequest ?c' ?e')) = 1"
    using t h3 by blast
  show ?thesis
    using a b h1 h2 h3 v by blast
qed

text \<open>
  Claim C6, as the code has it. With \<^verbatim>\<open>initialDelay\<close> = 500 ms and \<^verbatim>\<open>maxDelay\<close> = 10 s, in
  a new sequence of calls (20, or any other number) that all reach the fetch and meet an
  upstream answering \<^verbatim>\<open>pending\<close>, every value of \<^verbatim>\<open>delay\<close> is strictly less than 10 s
  and at least the smaller of the value before it and 5 s; no call panics. So the values
  do not decrease while they are at most 5 s, and stay in \<open>[5 s, 10 s)\<close> afterwards.
\<close>

theorem pending_delays_bounded:
  assumes "initialDelay c = 500 * Millisecond" and "maxDelay c = 10 * Second"
    and "\<not> pending c" and "pendingRun c es"
  shows "successively (\<lambda>d d'. min d 5000000000 \<le> d' \<and> d' < 10000000000)
           (500000000 # delays c es) \<and>
         (\<forall>d \<in> set (delays c es). d < 10000000000) \<and>
         (\<forall>h \<in> set (polls c es). panicked h = None)"
proof -
  have inv: "defaultBackoff c"
    using assms(1,2,3) by (simp add: defaultBackoff_def)
  have s: "successively (\<lambda>d d'. min d 5000000000 \<le> d' \<and> d' < 10000000000)
           (500000000 # delays c es)"
    using delays_default [OF inv assms(4)] assms(3) by simp
  have "\<forall>d \<in> set (delays c es). d < 10000000000"
    by (rule successively_tail_all [OF s]) simp
  then show ?thesis
    using s polls_default [OF inv, of es] by simp
qed

text \<open>Twenty calls, ten seconds apart, the largest jitter in the first four.\<close>

theorem pending_delays_bounded_witness:
  "initialDelay mainClient = 500 * Millisecond \<and> maxDelay mainClient = 10 * Second \<and>
   \<not> pending mainClient \<and> length (jitterRun 20) = 20 \<and> pendingRun mainClient (jitterRun 20) \<and>
   successively (\<lambda>d d'. min d 5000000000 \<le> d' \<and> d' < 10000000000)
     (500000000 # delays mainClient (jitterRun 20)) \<and>
   list_all (\<lambda>d. d < 10000000000) (delays mainClient (jitterRun 20)) \<and>
   list_all (\<lambda>h. panicked h = None) (polls mainClient (jitterRun 20))"
proof -
  have h1: "initialDelay mainClient = 500 * Millisecond" by code_simp
  have h2: "maxDelay mainClient = 10 * Second" by code_simp
  have h3: "\<not> pending mainClient" by code_simp
  have h4: "pendingRun mainClient (jitterRun 20)" by code_simp
  have n: "length (jitterRun 20) = 20" by code_simp
  show ?thesis
    using pending_delays_bounded [OF h1 h2 h3 h4] h1 h2 h3 h4 n
    unfolding list_all_iff by blast
qed

text \<open>Claim C6 as stated fails on these twenty calls: the fourth delay is 7.999999985 s
  and the fifth is 5 s.\<close>

theorem pending_delays_counterexample:
  "length (jitterRun 20) = 20 \<and> pendingRun mainClient (jitterRun 20) \<and>
   delays mainClient (jitterRun 20) =
     [999999999, 1999999997, 3999999993, 7999999985,
      5000000000, 5000000000, 5000000000, 5000000000, 5000000000, 5000000000,
      5000000000, 5000000000, 5000000000, 5000000000, 5000000000, 5000000000,
      5000000000, 5000000000, 5000000000, 5000000000] \<and>
   \<not> sorted (delays mainClient (jitterRun 20))"
  by code_simp

text \<open>
  Claim C7, as the code has it. Whatever its two arguments (the base URL and the logger),
  \<^verbatim>\<open>NewClient\<close> builds a client with \<^verbatim>\<open>initialDelay\<close> = 500 ms, \<^verbatim>\<open>maxDelay\<close> = 10 s,
  \<^verbatim>\<open>maxRetries\<close> = 20 and \<^verbatim>\<open>timeout\<close> = 5 s: the constructor has no parameter that
  overrides any of the four.
\<close>

theorem NewClient_defaults:
  "initialDelay (NewClient baseURL lg) = 500 * Millisecond \<and>
   maxDelay (NewClient baseURL lg) = 10 * Second \<and>
   maxRetries (NewClient baseURL lg) = 20 \<and>
   timeout (NewClient baseURL lg) = 5 * Second \<and>
   sint (initialDelay (NewClient baseURL lg)) = 500000000 \<and>
   sint (maxDelay (NewClient baseURL lg)) = 10000000000 \<and>
   sint (maxRetries (NewClient baseURL lg)) = 20 \<and>
   sint (timeout (NewClient baseURL lg)) = 5000000000"
  by (simp add: NewClient_def Millisecond_def Second_def)

text \<open>Claim C7 as stated fails: no arguments of \<^verbatim>\<open>NewClient\<close> give any of the four
  parameters another value.\<close>

theorem NewClient_override_counterexample:
  "\<not> (\<exists>baseURL lg.
        initialDelay (NewClient baseURL lg) \<noteq> 500 * Millisecond \<or>
        maxDelay (NewClient baseURL lg) \<noteq> 10 * Second \<or>
        maxRetries (NewClient baseURL lg) \<noteq> 20 \<or>
        timeout (NewClient baseURL lg) \<noteq> 5 * Second)"
  by (simp add: NewClient_def)




text \<open>
  Claim C9. \<^verbatim>\<open>nextDelay\<close> panics (in \<^verbatim>\<open>rand.Int63n\<close>) exactly when the capped delay is
  below 2 ns and returns a value exactly when it is at least 2 ns; with an
  \<^verbatim>\<open>initialDelay\<close> of 1 ns it panics at the current delay 0; and no call of the handler
  panics in any run from a client built by \<^verbatim>\<open>NewClient\<close>.
\<close>

theorem nextDelay_panics_iff:
  "(nextDelay c r current = Inl InvalidArgumentToInt63n \<longleftrightarrow> sint (cappedDelay c current) < 2) \<and>
   ((\<exists>d. nextDelay c r current = Inr d) \<longleftrightarrow> 2 \<le> sint (cappedDelay c current)) \<and>
   (initialDelay c = 1 \<longrightarrow> nextDelay c r 0 = Inl InvalidArgumentToInt63n) \<and>
   (\<forall>h \<in> set (polls (NewClient baseURL lg) es). panicked h = None)"
proof -
  have ok: "\<exists>d. nextDelay c r current = Inr d" if "2 \<le> sint (cappedDelay c current)"
    using nextDelay_Inr [OF that, of r] by blast
  have bad: "nextDelay c r current = Inl InvalidArgumentToInt63n"
    if "sint (cappedDelay c current) < 2"
    by (rule nextDelay_Inl [OF that])
  have a: "nextDelay c r current = Inl InvalidArgumentToInt63n \<longleftrightarrow> sint (cappedDelay c current) < 2"
    using ok bad by (cases "2 \<le> sint (cappedDelay c current)") auto
  have b: "(\<exists>d. nextDelay c r current = Inr d) \<longleftrightarrow> 2 \<le> sint (cappedDelay c current)"
    using ok bad by (cases "2 \<le> sint (cappedDelay c current)") auto
  have one: "nextDelay c r 0 = Inl InvalidArgumentToInt63n" if "initialDelay c = 1"
  proof -
    have "sint (cappedDelay c 0) < 2"
      using that by (simp add: cappedDelay_def Let_def word_sless_alt)
    then show ?thesis by (rule nextDelay_Inl)
  qed
  have "defaultBackoff (NewClient baseURL lg)"
    by (simp add: defaultBackoff_def NewClient_def)
  then have d: "\<forall>h \<in> set (polls (NewClient baseURL lg) es). panicked h = None"
    by (rule polls_default)
  show ?thesis
    using a b one d by blast
qed

text \<open>The client of \<^verbatim>\<open>cmd/client/main.go\<close> with its \<^verbatim>\<open>initialDelay\<close> replaced by 1 ns,
  and as it is.\<close>

theorem nextDelay_panics_iff_witness:
  "initialDelay (mainClient\<lparr>initialDelay := 1\<rparr>) = 1 \<and>
   sint (cappedDelay (mainClient\<lparr>initialDelay := 1\<rparr>) 0) = 1 \<and>
   nextDelay (mainClient\<lparr>initialDelay := 1\<rparr>) 5 0 = Inl InvalidArgumentToInt63n \<and>
   sint (cappedDelay mainClient (500 * Millisecond)) = 1000000000 \<and>
   nextDelay mainClient 5 (500 * Millisecond) = Inr 500000005 \<and>
   list_all (\<lambda>h. panicked h = None) (polls mainClient (jitterRun 20))"
proof -
  let ?c = "mainClient\<lparr>initialDelay := 1\<rparr>"
  have h: "initialDelay ?c = 1" by code_simp
  have v1: "sint (cappedDelay ?c 0) = 1" by code_simp
  have v2: "sint (cappedDelay mainClient (500 * Millisecond)) = 1000000000" by code_simp
  have v3: "nextDelay mainClient 5 (500 * Millisecond) = Inr 500000005" by code_simp
  note t = nextDelay_panics_iff [of ?c 5 0 "''http://localhost:8080''" "LogNew ''INFO: '' 3"
      "jitterRun 20"]
  have a: "nextDelay ?c 5 0 = Inl InvalidArgumentToInt63n"
    using t h by blast
  have b: "list_all (\<lambda>h. panicked h = None) (polls mainClient (jitterRun 20))"
    using t unfolding list_all_iff mainClient_def by blast
  show ?thesis
    using h v1 v2 v3 a b by blast
qed

text \<open>
  Claim C10. When a call reaches the fetch and the response is a 200 whose body decodes, the
  fetch is not a transport failure and the decoded \<^verbatim>\<open>result\<close> string becomes \<^verbatim>\<open>status\<close>
  whatever it is; every string other than \<^verbatim>\<open>pending\<close> (the empty string and unknown
  values included) ends the sequence and is returned to the caller with a 200.
\<close>

theorem decoded_result_is_adopted:
  assumes "fetchDue c e" and "upstream e = Responds 200 (Decoded r)"
  shows "\<not> transportFailure (upstream e) \<and>
         fetches (HandleStatusRequest c e) = 1 \<and>
         status (client (HandleStatusRequest c e)) = r \<and>
         (r \<noteq> ''pending'' \<longrightarrow>
            \<not> pending (client (HandleStatusRequest c e)) \<and>
            written (HandleStatusRequest c e) = [StatusOK r] \<and>
            panicked (HandleStatusRequest c e) = None)"
proof (cases "r = ''pending''")
  case True
  then show ?thesis
    using handle_pending [OF assms(1)] assms(2) by (simp split: sum.splits)
next
  case False
  then show ?thesis
    using handle_terminal [OF assms False] assms(2) by simp
qed

text \<open>An upstream whose JSON object has no \<^verbatim>\<open>result\<close> field decodes to the empty
  string.\<close>

theorem decoded_result_is_adopted_witness:
  "fetchDue mainClient (resultPoll 10000000000 '''') \<and>
   upstream (resultPoll 10000000000 '''') = Responds 200 (Decoded '''') \<and>
   \<not> transportFailure (upstream (resultPoll 10000000000 '''')) \<and>
   fetches (HandleStatusRequest mainClient (resultPoll 10000000000 '''')) = 1 \<and>
   status (client (HandleStatusRequest mainClient (resultPoll 10000000000 ''''))) = '''' \<and>
   \<not> pending (client (HandleStatusRequest mainClient (resultPoll 10000000000 ''''))) \<and>
   written (HandleStatusRequest mainClient (resultPoll 10000000000 '''')) = [StatusOK ''''] \<and>
   panicked (HandleStatusRequest mainClient (resultPoll 10000000000 '''')) = None"
proof -
  have h1: "fetchDue mainClient (resultPoll 10000000000 '''')" by code_simp
  have h2: "upstream (resultPoll 10000000000 '''') = Responds 200 (Decoded '''')" by code_simp
  show ?thesis
    using decoded_result_is_adopted [OF h1 h2] h1 h2 by simp
qed

end
